theory Spec2Isabelle
  imports Complex_Main
begin

section \<open>Data model\<close>

text \<open>
  The balance screen exists in two source variants: \<^verbatim>\<open>app/(tabs)/balance.tsx\<close> (called the
  plain variant below) and \<^verbatim>\<open>unnamed/part_000\<close> (the converting variant, whose definitions
  carry the suffix \<open>_v2\<close>). JavaScript numbers are modelled as exact reals: sums are
  accumulated in list order, as the code does, without rounding. The aggregator is given a
  second time with its arithmetic as a parameter, which is then taken to be the rounding
  arithmetic of binary64; divisions yield a number that may be an infinity or
  \<^verbatim>\<open>NaN\<close>.

  The declaration of a transaction is not part of the two files; its fields are the ones
  the code reads, with the types \<^verbatim>\<open>'USD' | 'EUR'\<close> (the type of the display currency state)
  and \<^verbatim>\<open>'buy' | 'sell'\<close>.
\<close>

datatype DisplayCurrency = USD | EUR

datatype TransactionType = buy | sell

record Transaction =
  currencyCode :: string
  targetCurrency :: DisplayCurrency
  type :: TransactionType
  amount :: real
  rate :: real

text \<open>
  An entry of the static table \<^verbatim>\<open>CURRENCIES\<close>. The table itself is not in the two files and is a
  parameter of every function that reads it. The entry's \<^verbatim>\<open>code\<close> field is called
  \<open>ccode\<close> here, since \<open>code\<close> is the field of a balance row.
\<close>

record Currency =
  ccode :: string
  name :: string
  flagUrl :: string

text \<open>
  The object stored in \<^verbatim>\<open>balanceMap\<close>; \<open>currency\<close> is \<open>None\<close> where
  \<^verbatim>\<open>CURRENCIES.find\<close> returns \<^verbatim>\<open>undefined\<close>. Its \<^verbatim>\<open>targetCurrency\<close> field is called
  \<open>dataTargetCurrency\<close>.
\<close>

record BalanceData =
  buys :: real
  sells :: real
  currency :: "Currency option"
  dataTargetCurrency :: DisplayCurrency

text \<open>A balance row: \<^verbatim>\<open>{ code, ...data, netTotal }\<close>.\<close>

record CurrencyBalance = BalanceData +
  code :: string
  netTotal :: real

section \<open>The insertion-ordered map\<close>

text \<open>
  A JavaScript \<^verbatim>\<open>Map\<close> iterates in insertion order, and \<^verbatim>\<open>set\<close> on a key that is present
  replaces the value in place. The model is an association list with unique keys.
\<close>

type_synonym BalanceMap = "(string \<times> BalanceData) list"

fun map_get :: "BalanceMap \<Rightarrow> string \<Rightarrow> BalanceData option" where
  "map_get [] key = None"
| "map_get ((k, v) # m) key = (if k = key then Some v else map_get m key)"

fun map_set :: "string \<Rightarrow> BalanceData \<Rightarrow> BalanceMap \<Rightarrow> BalanceMap" where
  "map_set key val [] = [(key, val)]"
| "map_set key val ((k, v) # m) =
     (if k = key then (key, val) # m else (k, v) # map_set key val m)"

section \<open>The plain variant\<close>

text \<open>The body of the \<^verbatim>\<open>forEach\<close> callback of \<^verbatim>\<open>balances\<close>, on the map it mutates.\<close>

definition accumulate ::
  "Currency list \<Rightarrow> DisplayCurrency \<Rightarrow> BalanceMap \<Rightarrow> Transaction \<Rightarrow> BalanceMap" where
  "accumulate CURRENCIES displayCurrency balanceMap transaction =
     (if targetCurrency transaction = displayCurrency then
        (let key = currencyCode transaction;
             currentBalance =
               (case map_get balanceMap key of
                  Some b \<Rightarrow> b
                | None \<Rightarrow> \<lparr>buys = 0, sells = 0,
                           currency = find (\<lambda>c. ccode c = key) CURRENCIES,
                           dataTargetCurrency = targetCurrency transaction\<rparr>);
             currentBalance' =
               (if type transaction = buy
                then currentBalance\<lparr>buys := buys currentBalance + amount transaction\<rparr>
                else currentBalance\<lparr>sells := sells currentBalance + amount transaction\<rparr>)
         in map_set key currentBalance' balanceMap)
      else balanceMap)"

text \<open>
  The rate of a row is \<^verbatim>\<open>transactions.find(...)?.rate || 0\<close>: zero when nothing is found,
  and the rate when it is found and truthy (a real number is falsy exactly when it is zero).
\<close>

definition balances ::
  "Currency list \<Rightarrow> Transaction list \<Rightarrow> DisplayCurrency \<Rightarrow> CurrencyBalance list" where
  "balances CURRENCIES transactions displayCurrency =
     map (\<lambda>(c, data).
            \<lparr>buys = buys data, sells = sells data, currency = currency data,
             dataTargetCurrency = dataTargetCurrency data,
             code = c,
             netTotal = (buys data - sells data)
                        * (case find (\<lambda>t. currencyCode t = c
                                       \<and> targetCurrency t = dataTargetCurrency data)
                                  transactions of
                             None \<Rightarrow> 0
                           | Some t \<Rightarrow> (if rate t \<noteq> 0 then rate t else 0))\<rparr>)
         (foldl (accumulate CURRENCIES displayCurrency) [] transactions)"

text \<open>\<^verbatim>\<open>totalNetBalanceDZD\<close>: a \<^verbatim>\<open>reduce\<close> from 0 over all transactions.\<close>

definition totalNetBalanceDZD :: "Transaction list \<Rightarrow> real" where
  "totalNetBalanceDZD transactions =
     foldl (\<lambda>total transaction.
              total + (if type transaction = buy then amount transaction
                       else - amount transaction) * rate transaction)
           0 transactions"

section \<open>Errors and numbers that are not finite\<close>

text \<open>
  Reading a property of \<^verbatim>\<open>undefined\<close> raises a \<^verbatim>\<open>TypeError\<close>, and so does \<^verbatim>\<open>reduce\<close>
  on an empty array without an initial value; it is the only error the two files can raise.
\<close>

datatype error = TypeError

text \<open>
  A JavaScript number is a finite value, an infinity or \<^verbatim>\<open>NaN\<close>. Where the code divides,
  the result is a \<open>number\<close>: dividing by zero gives an infinity, or \<^verbatim>\<open>NaN\<close> for
  \<^verbatim>\<open>0 / 0\<close>. The sign of a zero is not modelled.
\<close>

datatype number = Num real | Infinity | NegInfinity | NaN

text \<open>\<^verbatim>\<open>x / y\<close> for finite \<open>x\<close> and \<open>y\<close>.\<close>

definition jsDivide :: "real \<Rightarrow> real \<Rightarrow> number" where
  "jsDivide x y =
     (if y \<noteq> 0 then Num (x / y)
      else if 0 < x then Infinity
      else if x < 0 then NegInfinity
      else NaN)"

text \<open>\<^verbatim>\<open>x / n\<close> for a finite \<open>x\<close> and any number \<open>n\<close>.\<close>

fun divideByNumber :: "real \<Rightarrow> number \<Rightarrow> number" where
  "divideByNumber x (Num y) = jsDivide x y"
| "divideByNumber x Infinity = Num 0"
| "divideByNumber x NegInfinity = Num 0"
| "divideByNumber x NaN = NaN"

text \<open>A number used as a condition: zero and \<^verbatim>\<open>NaN\<close> are falsy.\<close>

fun truthy :: "number \<Rightarrow> bool" where
  "truthy (Num y) = (y \<noteq> 0)"
| "truthy Infinity = True"
| "truthy NegInfinity = True"
| "truthy NaN = False"

text \<open>\<^verbatim>\<open>n > 0\<close> for a number \<open>n\<close>.\<close>

fun greaterThanZero :: "number \<Rightarrow> bool" where
  "greaterThanZero (Num y) = (0 < y)"
| "greaterThanZero Infinity = True"
| "greaterThanZero NegInfinity = False"
| "greaterThanZero NaN = False"

text \<open>
  \<^verbatim>\<open>xs.reduce((a, b) => a + b)\<close>: without an initial value the fold starts from the first
  element, and the call raises on an empty array.
\<close>

fun reduce :: "real list \<Rightarrow> error + real" where
  "reduce [] = Inl TypeError"
| "reduce (a # rest) = Inr (foldl (\<lambda>a b. a + b) a rest)"

section \<open>The converting variant\<close>

text \<open>
  \<^verbatim>\<open>averageRates\<close> first collects the rates per target currency with \<^verbatim>\<open>push\<close>; the two
  arrays \<^verbatim>\<open>rates.EUR\<close> and \<^verbatim>\<open>rates.USD\<close> are the fields of \<open>RateLists\<close>.
\<close>

record RateLists =
  ratesEUR :: "real list"
  ratesUSD :: "real list"

definition collectRate :: "RateLists \<Rightarrow> Transaction \<Rightarrow> RateLists" where
  "collectRate rates transaction =
     (if targetCurrency transaction = EUR
      then rates\<lparr>ratesEUR := ratesEUR rates @ [rate transaction]\<rparr>
      else if targetCurrency transaction = USD
      then rates\<lparr>ratesUSD := ratesUSD rates @ [rate transaction]\<rparr>
      else rates)"

text \<open>\<^verbatim>\<open>xs.length > 0 ? xs.reduce((a, b) => a + b) / xs.length : 0\<close>.\<close>

definition meanOrZero :: "real list \<Rightarrow> error + number" where
  "meanOrZero xs =
     (if length xs > 0 then
        (case reduce xs of
           Inl e \<Rightarrow> Inl e
         | Inr acc \<Rightarrow> Inr (jsDivide acc (real (length xs))))
      else Inr (Num 0))"

text \<open>The result of \<^verbatim>\<open>averageRates\<close>, with its keys \<^verbatim>\<open>EUR\<close> and \<^verbatim>\<open>USD\<close>.\<close>

record AverageRates =
  avgEUR :: number
  avgUSD :: number

definition averageRates :: "Transaction list \<Rightarrow> error + AverageRates" where
  "averageRates transactions =
     (let rates = foldl collectRate \<lparr>ratesEUR = [], ratesUSD = []\<rparr> transactions
      in case meanOrZero (ratesEUR rates) of
           Inl e \<Rightarrow> Inl e
         | Inr eur \<Rightarrow>
             (case meanOrZero (ratesUSD rates) of
                Inl e \<Rightarrow> Inl e
              | Inr usd \<Rightarrow> Inr \<lparr>avgEUR = eur, avgUSD = usd\<rparr>))"

text \<open>\<^verbatim>\<open>averageRates[displayCurrency]\<close>.\<close>

fun averageRateFor :: "AverageRates \<Rightarrow> DisplayCurrency \<Rightarrow> number" where
  "averageRateFor r EUR = avgEUR r"
| "averageRateFor r USD = avgUSD r"

definition accumulate_v2 ::
  "Currency list \<Rightarrow> DisplayCurrency \<Rightarrow> BalanceMap \<Rightarrow> Transaction \<Rightarrow> BalanceMap" where
  "accumulate_v2 CURRENCIES displayCurrency balanceMap transaction =
     (if targetCurrency transaction = displayCurrency then
        (let key = currencyCode transaction;
             currentBalance =
               (case map_get balanceMap key of
                  Some b \<Rightarrow> b
                | None \<Rightarrow> \<lparr>buys = 0, sells = 0,
                           currency = find (\<lambda>c. ccode c = key) CURRENCIES,
                           dataTargetCurrency = targetCurrency transaction\<rparr>);
             currentBalance' =
               (if type transaction = buy
                then currentBalance\<lparr>buys := buys currentBalance + amount transaction\<rparr>
                else currentBalance\<lparr>sells := sells currentBalance + amount transaction\<rparr>)
         in map_set key currentBalance' balanceMap)
      else balanceMap)"

definition balances_v2 ::
  "Currency list \<Rightarrow> Transaction list \<Rightarrow> DisplayCurrency \<Rightarrow> CurrencyBalance list" where
  "balances_v2 CURRENCIES transactions displayCurrency =
     map (\<lambda>(c, data).
            \<lparr>buys = buys data, sells = sells data, currency = currency data,
             dataTargetCurrency = dataTargetCurrency data,
             code = c,
             netTotal = (buys data - sells data)
                        * (case find (\<lambda>t. currencyCode t = c
                                       \<and> targetCurrency t = dataTargetCurrency data)
                                  transactions of
                             None \<Rightarrow> 0
                           | Some t \<Rightarrow> (if rate t \<noteq> 0 then rate t else 0))\<rparr>)
         (foldl (accumulate_v2 CURRENCIES displayCurrency) [] transactions)"

text \<open>
  The object \<^verbatim>\<open>{ DZD: totalDZD, [displayCurrency]: ... }\<close>: its second key is the display
  currency it was computed for, and \<open>inDisplayCurrency\<close> is the value under that key.
\<close>

record TotalNetBalance =
  DZD :: real
  inDisplayCurrency :: number

text \<open>
  \<^verbatim>\<open>totalNetBalance\<close> depends on \<^verbatim>\<open>[transactions, displayCurrency, averageRates]\<close>: the
  average rates are the value computed before, here the third argument. Its last line is
  \<^verbatim>\<open>rate ? totalDZD / rate : 0\<close>.
\<close>

definition totalNetBalance ::
  "Transaction list \<Rightarrow> DisplayCurrency \<Rightarrow> AverageRates \<Rightarrow> TotalNetBalance" where
  "totalNetBalance transactions displayCurrency avgs =
     (let totalDZD =
            foldl (\<lambda>total transaction.
                     total + (if type transaction = buy then amount transaction
                              else - amount transaction) * rate transaction)
                  0 transactions;
          avg = (if displayCurrency = EUR then avgEUR avgs else avgUSD avgs)
      in \<lparr>DZD = totalDZD,
          inDisplayCurrency = (if truthy avg then divideByNumber totalDZD avg else Num 0)\<rparr>)"

section \<open>The view\<close>

datatype Color = COLORS_success | COLORS_error

text \<open>The style-sheet entries \<^verbatim>\<open>styles.positive\<close> and \<^verbatim>\<open>styles.negative\<close>.\<close>

datatype Style = positive | negative

fun color :: "Style \<Rightarrow> Color" where
  "color positive = COLORS_success"
| "color negative = COLORS_error"

text \<open>
  The component computes \<^verbatim>\<open>averageRates\<close> first, so an error there is an error of the
  rendering. \<^verbatim>\<open>formatCurrency\<close> is imported from another module. A formatted text is kept as the call
  that produces it: the amount and the currency code it is given.
\<close>

datatype Text = formatCurrency real string

fun codeOf :: "DisplayCurrency \<Rightarrow> string" where
  "codeOf USD = ''USD''"
| "codeOf EUR = ''EUR''"

record BalanceItemView =
  flagUri :: string
  currencyNameText :: string
  currencyCodeText :: string
  totalBuys :: Text
  totalSells :: Text
  netTotalStyle :: Style
  netTotalValue :: Text

text \<open>
  \<^verbatim>\<open>renderBalanceItem\<close> has the same text in both files. It reads \<^verbatim>\<open>item.currency.flagUrl\<close>
  first, which raises when \<^verbatim>\<open>item.currency\<close> is \<^verbatim>\<open>undefined\<close>.
\<close>

definition renderBalanceItem ::
  "DisplayCurrency \<Rightarrow> CurrencyBalance \<Rightarrow> error + BalanceItemView" where
  "renderBalanceItem displayCurrency item =
     (case currency item of
        None \<Rightarrow> Inl TypeError
      | Some c \<Rightarrow>
          Inr \<lparr>flagUri = flagUrl c,
               currencyNameText = name c,
               currencyCodeText = code item,
               totalBuys = formatCurrency (buys item) (codeOf displayCurrency),
               totalSells = formatCurrency (sells item) (codeOf displayCurrency),
               netTotalStyle = (if netTotal item > 0 then positive else negative),
               netTotalValue =
                 formatCurrency (buys item - sells item) (codeOf displayCurrency)\<rparr>)"

text \<open>
  The list renders its rows in order; the first error ends the rendering. The windowing of
  \<^verbatim>\<open>FlatList\<close> (rows far down are rendered only when scrolled to) is not modelled.
\<close>

fun renderItems :: "('a \<Rightarrow> error + 'b) \<Rightarrow> 'a list \<Rightarrow> error + 'b list" where
  "renderItems f [] = Inr []"
| "renderItems f (x # xs) =
     (case f x of
        Inl e \<Rightarrow> Inl e
      | Inr v \<Rightarrow> (case renderItems f xs of Inl e \<Rightarrow> Inl e | Inr vs \<Rightarrow> Inr (v # vs)))"

text \<open>
  The converted total is formatted by the same \<^verbatim>\<open>formatCurrency\<close>; its amount is the result
  of a division, so a \<open>number\<close>.
\<close>

datatype ConvertedText = formatCurrencyNumber number string

text \<open>
  The summary card: the base-currency total and, in the converting variant only, the
  converted total when it is shown.
\<close>

record TotalBalanceCard =
  totalBalanceStyle :: Style
  totalBalanceValue :: Text
  totalBalanceValueSecondary :: "(Style \<times> ConvertedText) option"

datatype BalanceList = FlatList "BalanceItemView list" | noTransactionsText string

text \<open>
  The screen is either the empty state (title, description, icon) or the currency selector
  text, the summary card and the list.
\<close>

datatype Screen =
    EmptyState string string string
  | Summary string TotalBalanceCard BalanceList

definition BalanceScreen ::
  "Currency list \<Rightarrow> Transaction list \<Rightarrow> DisplayCurrency \<Rightarrow> error + Screen" where
  "BalanceScreen CURRENCIES transactions displayCurrency =
     (if length transactions > 0 then
        (let card = \<lparr>totalBalanceStyle =
                       (if totalNetBalanceDZD transactions > 0 then positive else negative),
                     totalBalanceValue =
                       formatCurrency (totalNetBalanceDZD transactions) ''DZD'',
                     totalBalanceValueSecondary = None\<rparr>
         in if length (balances CURRENCIES transactions displayCurrency) > 0 then
              (case renderItems (renderBalanceItem displayCurrency)
                      (balances CURRENCIES transactions displayCurrency) of
                 Inl e \<Rightarrow> Inl e
               | Inr items \<Rightarrow> Inr (Summary (codeOf displayCurrency) card (FlatList items)))
            else Inr (Summary (codeOf displayCurrency) card
                        (noTransactionsText (''No transactions in '' @ codeOf displayCurrency))))
      else Inr (EmptyState ''No transactions yet''
                  ''Your balance summary will appear here once you make transactions''
                  ''history''))"

definition BalanceScreen_v2 ::
  "Currency list \<Rightarrow> Transaction list \<Rightarrow> DisplayCurrency \<Rightarrow> error + Screen" where
  "BalanceScreen_v2 CURRENCIES transactions displayCurrency =
     (case averageRates transactions of
        Inl e \<Rightarrow> Inl e
      | Inr avgs \<Rightarrow>
     (if length transactions > 0 then
        (let total = totalNetBalance transactions displayCurrency avgs;
             card = \<lparr>totalBalanceStyle = (if DZD total > 0 then positive else negative),
                     totalBalanceValue = formatCurrency (DZD total) ''DZD'',
                     totalBalanceValueSecondary =
                       (if greaterThanZero (averageRateFor avgs displayCurrency)
                        then Some (if greaterThanZero (inDisplayCurrency total)
                                   then positive else negative,
                                   formatCurrencyNumber (inDisplayCurrency total)
                                     (codeOf displayCurrency))
                        else None)\<rparr>
         in if length (balances_v2 CURRENCIES transactions displayCurrency) > 0 then
              (case renderItems (renderBalanceItem displayCurrency)
                      (balances_v2 CURRENCIES transactions displayCurrency) of
                 Inl e \<Rightarrow> Inl e
               | Inr items \<Rightarrow> Inr (Summary (codeOf displayCurrency) card (FlatList items)))
            else Inr (Summary (codeOf displayCurrency) card
                        (noTransactionsText (''No transactions in '' @ codeOf displayCurrency))))
      else Inr (EmptyState ''No transactions yet''
                  ''Your balance summary will appear here once you make transactions''
                  ''history'')))"

text \<open>
  The state the screen reads: the transaction list of the history hook and the display
  currency. \<^verbatim>\<open>toggleDisplayCurrency\<close> has the same text in both files.
\<close>

record ScreenState =
  stTransactions :: "Transaction list"
  stDisplayCurrency :: DisplayCurrency

definition toggleDisplayCurrency :: "ScreenState \<Rightarrow> ScreenState" where
  "toggleDisplayCurrency s =
     s\<lparr>stDisplayCurrency := (if stDisplayCurrency s = USD then EUR else USD)\<rparr>"

section \<open>The arithmetic of the aggregator as a parameter\<close>

text \<open>
  The definitions above add and multiply exactly. A JavaScript number is a binary64 value,
  and \<^verbatim>\<open>+\<close>, \<^verbatim>\<open>-\<close> and \<^verbatim>\<open>*\<close> round the exact result to the nearest such value. To see
  what depends on the rounding, the aggregator and the total are given once more with the
  three operations as a parameter.
\<close>

record Arith =
  add :: "real \<Rightarrow> real \<Rightarrow> real"
  sub :: "real \<Rightarrow> real \<Rightarrow> real"
  mul :: "real \<Rightarrow> real \<Rightarrow> real"

definition exact :: Arith where
  "exact = \<lparr>add = (\<lambda>x y. x + y), sub = (\<lambda>x y. x - y), mul = (\<lambda>x y. x * y)\<rparr>"

text \<open>The nearest integer, a tie going to the even one.\<close>

definition roundHalfEven :: "real \<Rightarrow> int" where
  "roundHalfEven y =
     (let f = \<lfloor>y\<rfloor>; d = y - of_int f
      in if d < 1 / 2 then f
         else if 1 / 2 < d then f + 1
         else if even f then f else f + 1)"

text \<open>
  The binary exponent of a positive number: the \<open>e\<close> with \<open>2 ^ e \<le> x < 2 ^ (e + 1)\<close>,
  found by halving or doubling at most \<open>n\<close> times.
\<close>

fun expo :: "nat \<Rightarrow> real \<Rightarrow> int" where
  "expo 0 x = 0"
| "expo (Suc n) x =
     (if x < 1 then expo n (2 * x) - 1
      else if 2 \<le> x then expo n (x / 2) + 1
      else 0)"

text \<open>\<open>x\<close> times two to the power \<open>e\<close>.\<close>

definition scaleBy :: "int \<Rightarrow> real \<Rightarrow> real" where
  "scaleBy e x = (if 0 \<le> e then x * 2 ^ nat e else x / 2 ^ nat (- e))"

text \<open>
  Rounding to binary64, to nearest with ties to even: a significand of 53 bits at the
  exponent of the number. The exponent range of binary64 is not modelled, so neither
  overflow to an infinity nor the subnormal numbers are; 1100 steps of \<open>expo\<close> cover the
  exponents of binary64.
\<close>

definition round64 :: "real \<Rightarrow> real" where
  "round64 x =
     (if x = 0 then 0
      else (let e = expo 1100 \<bar>x\<bar> - 52
            in scaleBy e (of_int (roundHalfEven (scaleBy (- e) x)))))"

definition binary64 :: Arith where
  "binary64 = \<lparr>add = (\<lambda>x y. round64 (x + y)), sub = (\<lambda>x y. round64 (x - y)),
               mul = (\<lambda>x y. round64 (x * y))\<rparr>"

text \<open>The loop body, the rows and the base-currency total of both files, over \<open>ar\<close>.\<close>

definition accumulateIn ::
  "Arith \<Rightarrow> Currency list \<Rightarrow> DisplayCurrency \<Rightarrow> BalanceMap \<Rightarrow> Transaction \<Rightarrow> BalanceMap"
  where
  "accumulateIn ar CURRENCIES displayCurrency balanceMap transaction =
     (if targetCurrency transaction = displayCurrency then
        (let key = currencyCode transaction;
             currentBalance =
               (case map_get balanceMap key of
                  Some b \<Rightarrow> b
                | None \<Rightarrow> \<lparr>buys = 0, sells = 0,
                           currency = find (\<lambda>c. ccode c = key) CURRENCIES,
                           dataTargetCurrency = targetCurrency transaction\<rparr>);
             currentBalance' =
               (if type transaction = buy
                then currentBalance\<lparr>buys := add ar (buys currentBalance) (amount transaction)\<rparr>
                else currentBalance\<lparr>sells := add ar (sells currentBalance) (amount transaction)\<rparr>)
         in map_set key currentBalance' balanceMap)
      else balanceMap)"

definition balancesIn ::
  "Arith \<Rightarrow> Currency list \<Rightarrow> Transaction list \<Rightarrow> DisplayCurrency \<Rightarrow> CurrencyBalance list"
  where
  "balancesIn ar CURRENCIES transactions displayCurrency =
     map (\<lambda>(c, data).
            \<lparr>buys = buys data, sells = sells data, currency = currency data,
             dataTargetCurrency = dataTargetCurrency data,
             code = c,
             netTotal =
               mul ar (sub ar (buys data) (sells data))
                 (case find (\<lambda>t. currencyCode t = c
                               \<and> targetCurrency t = dataTargetCurrency data)
                          transactions of
                    None \<Rightarrow> 0
                  | Some t \<Rightarrow> (if rate t \<noteq> 0 then rate t else 0))\<rparr>)
         (foldl (accumulateIn ar CURRENCIES displayCurrency) [] transactions)"

definition totalNetBalanceDZDIn :: "Arith \<Rightarrow> Transaction list \<Rightarrow> real" where
  "totalNetBalanceDZDIn ar transactions =
     foldl (\<lambda>total transaction.
              add ar total
                (mul ar (if type transaction = buy then amount transaction
                         else - amount transaction) (rate transaction)))
           0 transactions"

section \<open>Notions the properties are stated with\<close>

text \<open>
  The distinct elements of a list in the order of their first occurrence: what the keys of
  an insertion-ordered map are, once every element has been inserted.
\<close>

fun firstSeen :: "'a list \<Rightarrow> 'a list" where
  "firstSeen [] = []"
| "firstSeen (x # xs) = x # firstSeen (removeAll x xs)"

text \<open>The source currency codes of the transactions in the display currency.\<close>

definition seenCodes :: "Transaction list \<Rightarrow> DisplayCurrency \<Rightarrow> string list" where
  "seenCodes transactions displayCurrency =
     firstSeen (map currencyCode
                  (filter (\<lambda>t. targetCurrency t = displayCurrency) transactions))"

text \<open>
  The sum of the amounts of the transactions of one type, one source currency code and the
  display currency as target.
\<close>

definition sumAmounts ::
  "Transaction list \<Rightarrow> DisplayCurrency \<Rightarrow> string \<Rightarrow> TransactionType \<Rightarrow> real" where
  "sumAmounts transactions displayCurrency c ty =
     sum_list (map amount
       (filter (\<lambda>t. targetCurrency t = displayCurrency \<and> currencyCode t = c \<and> type t = ty)
          transactions))"

text \<open>The first transaction of the list with a given source and target currency.\<close>

definition firstMatching ::
  "Transaction list \<Rightarrow> string \<Rightarrow> DisplayCurrency \<Rightarrow> Transaction option" where
  "firstMatching transactions c displayCurrency =
     find (\<lambda>t. currencyCode t = c \<and> targetCurrency t = displayCurrency) transactions"

text \<open>The amount of a transaction, positive for a buy and negative for a sell.\<close>

definition signedAmount :: "Transaction \<Rightarrow> real" where
  "signedAmount t = (if type t = buy then amount t else - amount t)"

text \<open>The signed sum of amount times rate over a list of transactions.\<close>

definition baseTotal :: "Transaction list \<Rightarrow> real" where
  "baseTotal transactions = sum_list (map (\<lambda>t. signedAmount t * rate t) transactions)"

text \<open>The sum over a list of rows of \<open>buys - sells\<close>, in exact arithmetic.\<close>

definition rowsNet :: "CurrencyBalance list \<Rightarrow> real" where
  "rowsNet rows = sum_list (map (\<lambda>r. buys r - sells r) rows)"

text \<open>
  The signed sum of the amounts of the transactions whose target currency is the display
  currency, in exact arithmetic.
\<close>

definition signedSumIn :: "DisplayCurrency \<Rightarrow> Transaction list \<Rightarrow> real" where
  "signedSumIn displayCurrency transactions =
     sum_list (map signedAmount
       (filter (\<lambda>t. targetCurrency t = displayCurrency) transactions))"

text \<open>The same two sums, taken from 0 in list order with the operations of \<open>ar\<close>.\<close>

definition rowsNetIn :: "Arith \<Rightarrow> CurrencyBalance list \<Rightarrow> real" where
  "rowsNetIn ar rows = foldl (add ar) 0 (map (\<lambda>r. sub ar (buys r) (sells r)) rows)"

definition signedSumInWith :: "Arith \<Rightarrow> DisplayCurrency \<Rightarrow> Transaction list \<Rightarrow> real" where
  "signedSumInWith ar displayCurrency transactions =
     foldl (add ar) 0 (map signedAmount
       (filter (\<lambda>t. targetCurrency t = displayCurrency) transactions))"

text \<open>The rates of the transactions in the display currency.\<close>

definition ratesIn :: "Transaction list \<Rightarrow> DisplayCurrency \<Rightarrow> real list" where
  "ratesIn transactions displayCurrency =
     map rate (filter (\<lambda>t. targetCurrency t = displayCurrency) transactions)"

text \<open>The arithmetic mean of a list of rates, taken as zero for the empty list.\<close>

definition meanOf :: "real list \<Rightarrow> real" where
  "meanOf xs = (if xs = [] then 0 else sum_list xs / real (length xs))"

text \<open>A currency code has an entry in the reference table.\<close>

definition known :: "Currency list \<Rightarrow> string \<Rightarrow> bool" where
  "known CURRENCIES c = (\<exists>k \<in> set CURRENCIES. ccode k = c)"

text \<open>The generic empty state, as both files render it.\<close>

definition emptyState :: Screen where
  "emptyState = EmptyState ''No transactions yet''
                  ''Your balance summary will appear here once you make transactions''
                  ''history''"

text \<open>A screen without the converted total of the summary card.\<close>

fun withoutSecondary :: "Screen \<Rightarrow> Screen" where
  "withoutSecondary (EmptyState a b c) = EmptyState a b c"
| "withoutSecondary (Summary sel summary rows) =
     Summary sel (summary\<lparr>totalBalanceValueSecondary := None\<rparr>) rows"

text \<open>
  Auxiliary notions of the proofs: the rate expression of a row, the accumulator a code
  must have after the loop, and the net amount of an accumulator.
\<close>

definition rateOf :: "Transaction list \<Rightarrow> string \<Rightarrow> DisplayCurrency \<Rightarrow> real" where
  "rateOf transactions c tc =
     (case find (\<lambda>t. currencyCode t = c \<and> targetCurrency t = tc) transactions of
        None \<Rightarrow> 0
      | Some t \<Rightarrow> (if rate t \<noteq> 0 then rate t else 0))"

definition expectedData ::
  "Currency list \<Rightarrow> Transaction list \<Rightarrow> DisplayCurrency \<Rightarrow> string \<Rightarrow> BalanceData" where
  "expectedData CURRENCIES transactions displayCurrency c =
     \<lparr>buys = sumAmounts transactions displayCurrency c buy,
      sells = sumAmounts transactions displayCurrency c sell,
      currency = find (\<lambda>k. ccode k = c) CURRENCIES,
      dataTargetCurrency = displayCurrency\<rparr>"

definition netOf :: "BalanceData \<Rightarrow> real" where
  "netOf b = buys b - sells b"

subsection \<open>Sample data\<close>

definition sampleCurrencies :: "Currency list" where
  "sampleCurrencies =
     [\<lparr>ccode = ''GBP'', name = ''British Pound'', flagUrl = ''gbp.png''\<rparr>,
      \<lparr>ccode = ''CHF'', name = ''Swiss Franc'', flagUrl = ''chf.png''\<rparr>,
      \<lparr>ccode = ''CAD'', name = ''Canadian Dollar'', flagUrl = ''cad.png''\<rparr>]"

definition sampleTransactions :: "Transaction list" where
  "sampleTransactions =
     [\<lparr>currencyCode = ''GBP'', targetCurrency = EUR, type = buy, amount = 100, rate = 3 / 2\<rparr>,
      \<lparr>currencyCode = ''CHF'', targetCurrency = USD, type = buy, amount = 50, rate = 2\<rparr>,
      \<lparr>currencyCode = ''GBP'', targetCurrency = EUR, type = sell, amount = 30, rate = 5 / 4\<rparr>,
      \<lparr>currencyCode = ''CAD'', targetCurrency = EUR, type = sell, amount = 10, rate = 1 / 2\<rparr>]"

text \<open>Transactions towards USD only, and one transaction recorded at rate zero.\<close>

definition usdOnly :: "Transaction list" where
  "usdOnly =
     [\<lparr>currencyCode = ''CHF'', targetCurrency = USD, type = buy, amount = 50, rate = 2\<rparr>,
      \<lparr>currencyCode = ''GBP'', targetCurrency = USD, type = sell, amount = 20, rate = 3\<rparr>]"

definition zeroRate :: "Transaction list" where
  "zeroRate =
     [\<lparr>currencyCode = ''GBP'', targetCurrency = EUR, type = buy, amount = 100, rate = 0\<rparr>]"

text \<open>A transaction whose source currency is not in the sample table.\<close>

definition unlisted :: "Transaction list" where
  "unlisted =
     [\<lparr>currencyCode = ''XYZ'', targetCurrency = EUR, type = buy, amount = 100, rate = 9 / 10\<rparr>]"

text \<open>A row whose net total is exactly zero, and what it renders to.\<close>

definition zeroRow :: CurrencyBalance where
  "zeroRow =
     \<lparr>buys = 40, sells = 40,
      currency = Some \<lparr>ccode = ''GBP'', name = ''British Pound'', flagUrl = ''gbp.png''\<rparr>,
      dataTargetCurrency = EUR, code = ''GBP'', netTotal = 0\<rparr>"

definition zeroRowView :: BalanceItemView where
  "zeroRowView =
     \<lparr>flagUri = ''gbp.png'', currencyNameText = ''British Pound'', currencyCodeText = ''GBP'',
      totalBuys = formatCurrency 40 ''EUR'', totalSells = formatCurrency 40 ''EUR'',
      netTotalStyle = negative, netTotalValue = formatCurrency 0 ''EUR''\<rparr>"

text \<open>A state of the screen, and the rows it shows once the display currency is USD.\<close>

definition sampleState :: ScreenState where
  "sampleState = \<lparr>stTransactions = sampleTransactions, stDisplayCurrency = EUR\<rparr>"

definition sampleRowViewsUSD :: "BalanceItemView list" where
  "sampleRowViewsUSD =
     [\<lparr>flagUri = ''chf.png'', currencyNameText = ''Swiss Franc'', currencyCodeText = ''CHF'',
       totalBuys = formatCurrency 50 ''USD'', totalSells = formatCurrency 0 ''USD'',
       netTotalStyle = positive, netTotalValue = formatCurrency 50 ''USD''\<rparr>]"

text \<open>The rows the sample transactions render to when the display currency is EUR.\<close>

definition sampleRowViewsEUR :: "BalanceItemView list" where
  "sampleRowViewsEUR =
     [\<lparr>flagUri = ''gbp.png'', currencyNameText = ''British Pound'', currencyCodeText = ''GBP'',
       totalBuys = formatCurrency 100 ''EUR'', totalSells = formatCurrency 30 ''EUR'',
       netTotalStyle = positive, netTotalValue = formatCurrency 70 ''EUR''\<rparr>,
      \<lparr>flagUri = ''cad.png'', currencyNameText = ''Canadian Dollar'', currencyCodeText = ''CAD'',
       totalBuys = formatCurrency 0 ''EUR'', totalSells = formatCurrency 10 ''EUR'',
       netTotalStyle = negative, netTotalValue = formatCurrency (- 10) ''EUR''\<rparr>]"

text \<open>
  Three transactions towards EUR with the amounts 0.73, 3.29 and 4.94 as JavaScript reads
  them: the binary64 values nearest to these decimals.
\<close>

definition roundingSample :: "Transaction list" where
  "roundingSample =
     [\<lparr>currencyCode = ''GBP'', targetCurrency = EUR, type = buy,
       amount = round64 (73 / 100), rate = 1\<rparr>,
      \<lparr>currencyCode = ''CAD'', targetCurrency = EUR, type = sell,
       amount = round64 (329 / 100), rate = 1\<rparr>,
      \<lparr>currencyCode = ''GBP'', targetCurrency = EUR, type = buy,
       amount = round64 (494 / 100), rate = 1\<rparr>]"

section \<open>The loop of the aggregator\<close>

lemma set_firstSeen: "set (firstSeen xs) = set xs"
  by (induction xs rule: firstSeen.induct) auto

lemma distinct_firstSeen: "distinct (firstSeen xs)"
  by (induction xs rule: firstSeen.induct) (auto simp: set_firstSeen)

lemma firstSeen_snoc:
  "firstSeen (xs @ [x]) = (if x \<in> set xs then firstSeen xs else firstSeen xs @ [x])"
  by (induction xs rule: firstSeen.induct) auto

text \<open>The map, read as a table over its keys.\<close>

lemma map_get_tab:
  "map_get (map (\<lambda>c. (c, g c)) cs) k = (if k \<in> set cs then Some (g k) else None)"
  by (induction cs) auto

lemma map_set_tab_in:
  "k \<in> set cs \<Longrightarrow> distinct cs \<Longrightarrow>
   map_set k v (map (\<lambda>c. (c, g c)) cs) = map (\<lambda>c. (c, if c = k then v else g c)) cs"
  by (induction cs) auto

lemma map_set_tab_out:
  "k \<notin> set cs \<Longrightarrow> map_set k v (map (\<lambda>c. (c, g c)) cs) = map (\<lambda>c. (c, g c)) cs @ [(k, v)]"
  by (induction cs) auto

lemma seenCodes_snoc:
  "seenCodes (txs @ [t]) dc =
     (if targetCurrency t = dc \<and> currencyCode t \<notin> set (seenCodes txs dc)
      then seenCodes txs dc @ [currencyCode t] else seenCodes txs dc)"
  by (auto simp: seenCodes_def firstSeen_snoc set_firstSeen)

lemma set_seenCodes:
  "set (seenCodes txs dc) = currencyCode ` {t \<in> set txs. targetCurrency t = dc}"
  by (auto simp: seenCodes_def set_firstSeen)

lemma distinct_seenCodes: "distinct (seenCodes txs dc)"
  by (simp add: seenCodes_def distinct_firstSeen)

lemma expectedData_unseen:
  assumes "c \<notin> set (seenCodes txs dc)"
  shows "expectedData C txs dc c =
           \<lparr>buys = 0, sells = 0, currency = find (\<lambda>k. ccode k = c) C,
            dataTargetCurrency = dc\<rparr>"
proof -
  from assms
  have "filter (\<lambda>t. targetCurrency t = dc \<and> currencyCode t = c \<and> type t = ty) txs = []"
    for ty
    by (auto simp: set_seenCodes filter_empty_conv)
  then show ?thesis by (simp add: expectedData_def sumAmounts_def)
qed

lemma expectedData_snoc:
  "expectedData C (txs @ [t]) dc c =
     (if targetCurrency t = dc \<and> currencyCode t = c
      then (if type t = buy
            then (expectedData C txs dc c)\<lparr>buys := buys (expectedData C txs dc c) + amount t\<rparr>
            else (expectedData C txs dc c)\<lparr>sells := sells (expectedData C txs dc c) + amount t\<rparr>)
      else expectedData C txs dc c)"
  by (cases "type t") (auto simp: expectedData_def sumAmounts_def)

text \<open>
  After the loop the map holds, for each code seen and in the order of first occurrence,
  the sums of that code.
\<close>

lemma foldl_accumulate:
  "foldl (accumulate C dc) [] txs = map (\<lambda>c. (c, expectedData C txs dc c)) (seenCodes txs dc)"
proof (induction txs rule: rev_induct)
  case Nil
  show ?case by (simp add: seenCodes_def)
next
  case (snoc t txs)
  show ?case
  proof (cases "targetCurrency t = dc")
    case False
    then show ?thesis
      using snoc by (simp add: accumulate_def seenCodes_snoc expectedData_snoc)
  next
    case True
    note tc = this
    show ?thesis
    proof (cases "currencyCode t \<in> set (seenCodes txs dc)")
      case True
      show ?thesis
        using snoc tc True
        by (simp add: accumulate_def Let_def map_get_tab
            map_set_tab_in [OF True distinct_seenCodes] seenCodes_snoc expectedData_snoc)
    next
      case False
      show ?thesis
        using snoc tc False
        by (simp add: accumulate_def Let_def map_get_tab map_set_tab_out
            seenCodes_snoc expectedData_snoc expectedData_unseen)
    qed
  qed
qed

lemma balances_tab:
  "balances C txs dc =
     map (\<lambda>c. \<lparr>buys = sumAmounts txs dc c buy, sells = sumAmounts txs dc c sell,
               currency = find (\<lambda>k. ccode k = c) C, dataTargetCurrency = dc, code = c,
               netTotal = (sumAmounts txs dc c buy - sumAmounts txs dc c sell)
                          * rateOf txs c dc\<rparr>)
         (seenCodes txs dc)"
  by (simp add: balances_def foldl_accumulate o_def expectedData_def rateOf_def)

lemma rateOf_seen:
  assumes "c \<in> set (seenCodes txs dc)"
  shows "\<exists>t. firstMatching txs c dc = Some t \<and> rateOf txs c dc = rate t"
proof -
  from assms obtain u where "u \<in> set txs" "targetCurrency u = dc" "currencyCode u = c"
    by (auto simp: set_seenCodes)
  then have "firstMatching txs c dc \<noteq> None"
    by (auto simp: firstMatching_def find_None_iff)
  then obtain t where "firstMatching txs c dc = Some t" by auto
  then show ?thesis by (auto simp: rateOf_def firstMatching_def)
qed

lemma accumulate_v2_eq: "accumulate_v2 = accumulate"
  by (intro ext) (simp add: accumulate_v2_def accumulate_def)

lemma balances_v2_eq: "balances_v2 C txs dc = balances C txs dc"
  by (simp add: balances_v2_def balances_def accumulate_v2_eq)

section \<open>Totals\<close>

lemma foldl_total:
  "foldl (\<lambda>total transaction.
            total + (if type transaction = buy then amount transaction
                     else - amount transaction) * rate transaction) a txs
   = a + baseTotal txs"
  by (induction txs arbitrary: a) (simp_all add: baseTotal_def signedAmount_def)

lemma totalNetBalanceDZD_sum: "totalNetBalanceDZD txs = baseTotal txs"
  by (simp add: totalNetBalanceDZD_def foldl_total)

lemma totalNetBalance_DZD: "DZD (totalNetBalance txs dc avgs) = totalNetBalanceDZD txs"
  by (simp add: totalNetBalance_def totalNetBalanceDZD_def Let_def)

lemma sum_map_set:
  "sum_list (map (\<lambda>(k, b). netOf b) (map_set key val m))
   = sum_list (map (\<lambda>(k, b). netOf b) m) + netOf val
     - (case map_get m key of None \<Rightarrow> 0 | Some b \<Rightarrow> netOf b)"
  by (induction m) auto

lemma sum_accumulate:
  "sum_list (map (\<lambda>(k, b). netOf b) (accumulate C dc m t))
   = sum_list (map (\<lambda>(k, b). netOf b) m)
     + (if targetCurrency t = dc then signedAmount t else 0)"
  by (cases "type t")
     (simp_all add: accumulate_def Let_def sum_map_set signedAmount_def split: option.splits,
      simp_all add: netOf_def)

lemma sum_foldl_accumulate:
  "sum_list (map (\<lambda>(k, b). netOf b) (foldl (accumulate C dc) m txs))
   = sum_list (map (\<lambda>(k, b). netOf b) m)
     + sum_list (map signedAmount (filter (\<lambda>t. targetCurrency t = dc) txs))"
  by (induction txs arbitrary: m) (simp_all add: sum_accumulate)

lemma sum_balances:
  "sum_list (map (\<lambda>r. buys r - sells r) (balances C txs dc))
   = sum_list (map signedAmount (filter (\<lambda>t. targetCurrency t = dc) txs))"
proof -
  have "map (\<lambda>r. buys r - sells r) (balances C txs dc)
        = map (\<lambda>(k, b). netOf b) (foldl (accumulate C dc) [] txs)"
    by (simp add: balances_def o_def netOf_def split_def)
  then show ?thesis by (simp add: sum_foldl_accumulate)
qed

lemma find_filter: "(\<And>x. P x \<Longrightarrow> Q x) \<Longrightarrow> find P (filter Q xs) = find P xs"
  by (induction xs) auto

lemma baseTotal_partition:
  "baseTotal txs = baseTotal (filter P txs) + baseTotal (filter (\<lambda>t. \<not> P t) txs)"
  by (induction txs) (simp_all add: baseTotal_def)

lemma foldl_collectRate:
  "foldl collectRate rs txs =
     \<lparr>ratesEUR = ratesEUR rs @ ratesIn txs EUR, ratesUSD = ratesUSD rs @ ratesIn txs USD\<rparr>"
  by (induction txs arbitrary: rs) (auto simp: collectRate_def ratesIn_def)

lemma foldl_plus: "foldl (\<lambda>a b. a + b) (a::real) xs = a + sum_list xs"
  by (induction xs arbitrary: a) simp_all

text \<open>The arithmetic mean of a list, zero for the empty list.\<close>

lemma reduce_sum: "xs \<noteq> [] \<Longrightarrow> reduce xs = Inr (sum_list xs)"
  by (cases xs) (simp_all add: foldl_plus)

lemma meanOrZero_eq: "meanOrZero xs = Inr (Num (meanOf xs))"
  by (cases "xs = []") (simp_all add: meanOrZero_def meanOf_def reduce_sum jsDivide_def)

lemma averageRates_eq:
  "averageRates txs =
     Inr \<lparr>avgEUR = Num (meanOf (ratesIn txs EUR)), avgUSD = Num (meanOf (ratesIn txs USD))\<rparr>"
  by (simp add: averageRates_def foldl_collectRate meanOrZero_eq)

lemma averageRateFor_eq:
  "averageRateFor
     \<lparr>avgEUR = Num (meanOf (ratesIn txs EUR)), avgUSD = Num (meanOf (ratesIn txs USD))\<rparr> dc
   = Num (meanOf (ratesIn txs dc))"
  by (cases dc) simp_all

lemma totalNetBalance_conv:
  "inDisplayCurrency (totalNetBalance txs dc avgs) =
     (if truthy (averageRateFor avgs dc)
      then divideByNumber (DZD (totalNetBalance txs dc avgs)) (averageRateFor avgs dc)
      else Num 0)"
  by (cases dc) (simp_all add: totalNetBalance_def Let_def)

lemma mean_pos:
  assumes "xs \<noteq> []" "\<forall>x \<in> set xs. 0 < (x::real)"
  shows "0 < sum_list xs / real (length xs)"
proof -
  from assms have "0 < sum_list xs"
    by (induction xs) (auto intro: add_pos_nonneg sum_list_nonneg less_imp_le)
  with assms(1) show ?thesis by simp
qed

section \<open>The view\<close>

lemma balances_empty:
  assumes "\<forall>t \<in> set txs. targetCurrency t \<noteq> dc"
  shows "balances C txs dc = []"
proof -
  from assms have "filter (\<lambda>t. targetCurrency t = dc) txs = []"
    by (simp add: filter_empty_conv)
  then show ?thesis by (simp add: balances_tab seenCodes_def)
qed

lemma meanOf_empty:
  assumes "\<forall>t \<in> set txs. targetCurrency t \<noteq> dc"
  shows "meanOf (ratesIn txs dc) = 0"
proof -
  from assms have "filter (\<lambda>t. targetCurrency t = dc) txs = []"
    by (simp add: filter_empty_conv)
  then show ?thesis by (simp add: meanOf_def ratesIn_def)
qed

lemma renderItems_ok:
  "\<forall>x \<in> set xs. \<exists>v. f x = Inr v \<Longrightarrow> \<exists>vs. renderItems f xs = Inr vs"
  by (induction xs) auto

lemma renderBalanceItem_error:
  "renderBalanceItem dc item = Inl TypeError \<longleftrightarrow> currency item = None"
  by (simp add: renderBalanceItem_def split: option.splits)

lemma renderBalanceItem_ok:
  "(\<exists>v. renderBalanceItem dc item = Inr v) \<longleftrightarrow> currency item \<noteq> None"
  by (auto simp: renderBalanceItem_def split: option.splits)

lemma balances_currency:
  "r \<in> set (balances C txs dc) \<Longrightarrow>
     currency r = find (\<lambda>k. ccode k = code r) C \<and> code r \<in> set (seenCodes txs dc)
     \<and> dataTargetCurrency r = dc"
  by (auto simp: balances_tab)

lemma find_known: "find (\<lambda>k. ccode k = c) C \<noteq> None \<longleftrightarrow> known C c"
  by (auto simp: find_None_iff known_def)

lemma rows_render:
  assumes "\<forall>t \<in> set txs. targetCurrency t = dc \<longrightarrow> known C (currencyCode t)"
  shows "\<exists>vs. renderItems (renderBalanceItem dc) (balances C txs dc) = Inr vs"
proof (rule renderItems_ok, rule ballI)
  fix r assume r: "r \<in> set (balances C txs dc)"
  from balances_currency [OF r] have cur: "currency r = find (\<lambda>k. ccode k = code r) C"
    and seen: "code r \<in> set (seenCodes txs dc)" by simp_all
  from seen obtain t where "t \<in> set txs" "targetCurrency t = dc" "currencyCode t = code r"
    by (auto simp: set_seenCodes)
  with assms have "known C (code r)" by auto
  then have "currency r \<noteq> None" by (simp only: cur find_known)
  then show "\<exists>v. renderBalanceItem dc r = Inr v" by (simp add: renderBalanceItem_ok)
qed

section \<open>The aggregator over any arithmetic\<close>

lemma expo_numeral:
  "expo (numeral k) x =
     (if x < 1 then expo (pred_numeral k) (2 * x) - 1
      else if 2 \<le> x then expo (pred_numeral k) (x / 2) + 1
      else 0)"
  by (simp add: numeral_eq_Suc)

lemmas round64_eval = round64_def expo_numeral scaleBy_def roundHalfEven_def

lemma accumulateIn_exact: "accumulateIn exact C dc m t = accumulate C dc m t"
  by (simp add: accumulateIn_def accumulate_def exact_def Let_def)

lemma foldl_accumulateIn_exact:
  "foldl (accumulateIn exact C dc) m txs = foldl (accumulate C dc) m txs"
  by (induction txs arbitrary: m) (simp_all add: accumulateIn_exact)

lemma balancesIn_exact: "balancesIn exact C txs dc = balances C txs dc"
  unfolding balancesIn_def balances_def foldl_accumulateIn_exact by (simp add: exact_def)

lemma totalNetBalanceDZDIn_exact: "totalNetBalanceDZDIn exact txs = totalNetBalanceDZD txs"
  by (simp add: totalNetBalanceDZDIn_def totalNetBalanceDZD_def exact_def)

lemma set_map_set: "set (map_set k v m) \<subseteq> insert (k, v) (set m)"
  by (induction m) (auto split: if_splits)

lemma map_get_in: "map_get m k = Some b \<Longrightarrow> (k, b) \<in> set m"
  by (induction m) (auto split: if_splits)

lemma accumulateIn_target:
  assumes "\<forall>p \<in> set m. dataTargetCurrency (snd p) = dc"
  shows "\<forall>p \<in> set (accumulateIn ar C dc m t). dataTargetCurrency (snd p) = dc"
proof (cases "targetCurrency t = dc")
  case False
  with assms show ?thesis by (simp add: accumulateIn_def)
next
  case True
  define cur where
    "cur = (case map_get m (currencyCode t) of
              Some b \<Rightarrow> b
            | None \<Rightarrow> \<lparr>buys = 0, sells = 0,
                       currency = find (\<lambda>c. ccode c = currencyCode t) C,
                       dataTargetCurrency = targetCurrency t\<rparr>)"
  define new where
    "new = (if type t = buy then cur\<lparr>buys := add ar (buys cur) (amount t)\<rparr>
            else cur\<lparr>sells := add ar (sells cur) (amount t)\<rparr>)"
  have a: "accumulateIn ar C dc m t = map_set (currencyCode t) new m"
    using True by (simp add: accumulateIn_def Let_def new_def cur_def)
  have "dataTargetCurrency cur = dc"
  proof (cases "map_get m (currencyCode t)")
    case None
    with True show ?thesis by (simp add: cur_def)
  next
    case (Some b)
    from map_get_in [OF Some] assms have "dataTargetCurrency b = dc" by force
    with Some show ?thesis by (simp add: cur_def)
  qed
  then have n: "dataTargetCurrency new = dc" by (simp add: new_def)
  show ?thesis
    unfolding a using set_map_set [of "currencyCode t" new m] assms n by auto
qed

lemma foldl_accumulateIn_target:
  "\<forall>p \<in> set m. dataTargetCurrency (snd p) = dc \<Longrightarrow>
   \<forall>p \<in> set (foldl (accumulateIn ar C dc) m txs). dataTargetCurrency (snd p) = dc"
proof (induction txs arbitrary: m)
  case Nil
  then show ?case by simp
next
  case (Cons t txs)
  from Cons.IH [OF accumulateIn_target [OF Cons.prems]] show ?case by simp
qed

lemma foldl_accumulateIn_filter:
  "foldl (accumulateIn ar C dc) m (filter (\<lambda>t. targetCurrency t = dc) txs)
   = foldl (accumulateIn ar C dc) m txs"
  by (induction txs arbitrary: m) (simp_all add: accumulateIn_def)

lemma balancesIn_filter:
  "balancesIn ar C (filter (\<lambda>t. targetCurrency t = dc) txs) dc = balancesIn ar C txs dc"
proof -
  have f: "find (\<lambda>t. currencyCode t = c \<and> targetCurrency t = dc)
             (filter (\<lambda>t. targetCurrency t = dc) txs)
           = find (\<lambda>t. currencyCode t = c \<and> targetCurrency t = dc) txs" for c
    by (rule find_filter) simp
  have t: "\<forall>p \<in> set (foldl (accumulateIn ar C dc) [] txs). dataTargetCurrency (snd p) = dc"
    by (rule foldl_accumulateIn_target) simp
  show ?thesis
    unfolding balancesIn_def foldl_accumulateIn_filter
  proof (rule map_cong [OF refl])
    fix p assume "p \<in> set (foldl (accumulateIn ar C dc) [] txs)"
    with t have "dataTargetCurrency (snd p) = dc" by blast
    then show "(case p of (c, data) \<Rightarrow>
            \<lparr>buys = buys data, sells = sells data, currency = currency data,
             dataTargetCurrency = dataTargetCurrency data,
             code = c,
             netTotal =
               mul ar (sub ar (buys data) (sells data))
                 (case find (\<lambda>t. currencyCode t = c
                               \<and> targetCurrency t = dataTargetCurrency data)
                          (filter (\<lambda>t. targetCurrency t = dc) txs) of
                    None \<Rightarrow> 0
                  | Some t \<Rightarrow> (if rate t \<noteq> 0 then rate t else 0))\<rparr>)
       = (case p of (c, data) \<Rightarrow>
            \<lparr>buys = buys data, sells = sells data, currency = currency data,
             dataTargetCurrency = dataTargetCurrency data,
             code = c,
             netTotal =
               mul ar (sub ar (buys data) (sells data))
                 (case find (\<lambda>t. currencyCode t = c
                               \<and> targetCurrency t = dataTargetCurrency data)
                          txs of
                    None \<Rightarrow> 0
                  | Some t \<Rightarrow> (if rate t \<noteq> 0 then rate t else 0))\<rparr>)"
      by (cases p) (simp add: f)
  qed
qed

lemma totalNetBalanceDZDIn_snoc:
  "totalNetBalanceDZDIn ar (txs @ [t])
   = add ar (totalNetBalanceDZDIn ar txs) (mul ar (signedAmount t) (rate t))"
  by (simp add: totalNetBalanceDZDIn_def signedAmount_def)

text \<open>The sample with rounded amounts, evaluated.\<close>

lemma round64_073: "round64 (73 / 100) = 1643813863990231 / 2251799813685248"
  by (simp add: round64_eval Let_def)
lemma round64_329: "round64 (329 / 100) = 3704210693512233 / 1125899906842624"
  by (simp add: round64_eval Let_def)
lemma round64_494: "round64 (494 / 100) = 5561945539802563 / 1125899906842624"
  by (simp add: round64_eval Let_def)

lemma roundingSample_eq:
  "roundingSample =
     [\<lparr>currencyCode = ''GBP'', targetCurrency = EUR, type = buy,
       amount = 1643813863990231 / 2251799813685248, rate = 1\<rparr>,
      \<lparr>currencyCode = ''CAD'', targetCurrency = EUR, type = sell,
       amount = 3704210693512233 / 1125899906842624, rate = 1\<rparr>,
      \<lparr>currencyCode = ''GBP'', targetCurrency = EUR, type = buy,
       amount = 5561945539802563 / 1125899906842624, rate = 1\<rparr>]"
  unfolding roundingSample_def round64_073 round64_329 round64_494 by (rule refl)

lemma rows64:
  "balancesIn binary64 sampleCurrencies roundingSample EUR =
     [\<lparr>buys = 3191926235898839 / 562949953421312, sells = 0,
       currency = Some \<lparr>ccode = ''GBP'', name = ''British Pound'', flagUrl = ''gbp.png''\<rparr>,
       dataTargetCurrency = EUR, code = ''GBP'',
       netTotal = 3191926235898839 / 562949953421312\<rparr>,
      \<lparr>buys = 0, sells = 3704210693512233 / 1125899906842624,
       currency = Some \<lparr>ccode = ''CAD'', name = ''Canadian Dollar'', flagUrl = ''cad.png''\<rparr>,
       dataTargetCurrency = EUR, code = ''CAD'',
       netTotal = - (3704210693512233 / 1125899906842624)\<rparr>]"
  unfolding roundingSample_eq
  by (simp add: balancesIn_def accumulateIn_def binary64_def sampleCurrencies_def Let_def
      round64_eval)

section \<open>The properties\<close>

text \<open>
  C1. The aggregator outputs one row per distinct source currency code among the
  transactions whose target currency is the display currency, in the order in which the
  codes are first seen. The \<open>buys\<close> and \<open>sells\<close> of a row are the sums of the amounts
  of the matching buy and sell transactions of its code, and its \<open>netTotal\<close> is
  \<open>buys - sells\<close> times the rate of the first transaction of the list with the code and
  the target currency of the row.
\<close>

theorem balances_rows:
  "map code (balances C txs dc) = seenCodes txs dc
   \<and> distinct (map code (balances C txs dc))
   \<and> set (map code (balances C txs dc))
       = currencyCode ` {t \<in> set txs. targetCurrency t = dc}
   \<and> (\<forall>r \<in> set (balances C txs dc).
         buys r = sumAmounts txs dc (code r) buy
       \<and> sells r = sumAmounts txs dc (code r) sell
       \<and> (\<exists>t. firstMatching txs (code r) dc = Some t
              \<and> netTotal r = (buys r - sells r) * rate t))"
proof -
  have codes: "map code (balances C txs dc) = seenCodes txs dc"
    by (simp add: balances_tab o_def)
  have rows: "buys r = sumAmounts txs dc (code r) buy
       \<and> sells r = sumAmounts txs dc (code r) sell
       \<and> (\<exists>t. firstMatching txs (code r) dc = Some t
              \<and> netTotal r = (buys r - sells r) * rate t)"
    if "r \<in> set (balances C txs dc)" for r
  proof -
    from that obtain c where c: "c \<in> set (seenCodes txs dc)"
      and r: "r = \<lparr>buys = sumAmounts txs dc c buy, sells = sumAmounts txs dc c sell,
               currency = find (\<lambda>k. ccode k = c) C, dataTargetCurrency = dc, code = c,
               netTotal = (sumAmounts txs dc c buy - sumAmounts txs dc c sell)
                          * rateOf txs c dc\<rparr>"
      by (auto simp: balances_tab)
    from rateOf_seen [OF c] obtain t where
      "firstMatching txs c dc = Some t" "rateOf txs c dc = rate t" by blast
    then show ?thesis by (simp add: r)
  qed
  have dd: "distinct (map code (balances C txs dc))"
    unfolding codes by (rule distinct_seenCodes)
  have s: "set (map code (balances C txs dc))
             = currencyCode ` {t \<in> set txs. targetCurrency t = dc}"
    unfolding codes by (rule set_seenCodes)
  from codes dd s rows show ?thesis by blast
qed

theorem balances_rows_witness:
  "map (\<lambda>r. (code r, buys r, sells r, netTotal r))
     (balances sampleCurrencies sampleTransactions EUR)
   = [(''GBP'', 100, 30, 105), (''CAD'', 0, 10, - 5)]
   \<and> seenCodes sampleTransactions EUR = [''GBP'', ''CAD'']
   \<and> sumAmounts sampleTransactions EUR ''GBP'' buy = 100
   \<and> sumAmounts sampleTransactions EUR ''GBP'' sell = 30
   \<and> map_option rate (firstMatching sampleTransactions ''GBP'' EUR) = Some (3 / 2)"
  using balances_rows [of sampleCurrencies sampleTransactions EUR]
  by (simp add: balances_def sampleTransactions_def accumulate_def Let_def seenCodes_def
      sumAmounts_def firstMatching_def)

text \<open>
  C2. The total net balance in the base currency is the sum, over all transactions
  whatever their target currency, of amount times rate, the amount counted positive for
  a buy and negative for a sell. In the converting variant the total is the same for
  both display currencies and whatever the average rates are.
\<close>

theorem total_net_balance_sum:
  "totalNetBalanceDZD txs = sum_list (map (\<lambda>t. signedAmount t * rate t) txs)
   \<and> DZD (totalNetBalance txs dc avgs) = sum_list (map (\<lambda>t. signedAmount t * rate t) txs)
   \<and> DZD (totalNetBalance txs dc avgs) = DZD (totalNetBalance txs dc' avgs')"
  by (simp add: totalNetBalance_DZD totalNetBalanceDZD_sum baseTotal_def)

text \<open>
  C3, as the code has it. A transaction whose target currency is not the display currency
  contributes to no row: the rows are those of the list with every such transaction
  removed, whatever the arithmetic, so under binary64 rounding too. Every transaction,
  whatever its target currency, is added into the base-currency total. In exact arithmetic
  the sum over the rows of \<open>buys - sells\<close> is the signed sum of the amounts of the
  transactions in the display currency, and the base-currency total is the sum of the
  contributions of the transactions in the display currency and of all the others.
\<close>

theorem other_targets_contribute_nothing:
  "balancesIn ar C (filter (\<lambda>t. targetCurrency t = dc) txs) dc = balancesIn ar C txs dc
   \<and> balancesIn binary64 C (filter (\<lambda>t. targetCurrency t = dc) txs) dc
     = balancesIn binary64 C txs dc
   \<and> totalNetBalanceDZDIn ar (txs @ [t])
     = add ar (totalNetBalanceDZDIn ar txs) (mul ar (signedAmount t) (rate t))
   \<and> balancesIn exact C txs dc = balances C txs dc
   \<and> balancesIn exact C txs dc = balances_v2 C txs dc
   \<and> totalNetBalanceDZDIn exact txs = totalNetBalanceDZD txs
   \<and> rowsNet (balancesIn exact C txs dc) = signedSumIn dc txs
   \<and> totalNetBalanceDZDIn exact txs
     = baseTotal (filter (\<lambda>t. targetCurrency t = dc) txs)
       + baseTotal (filter (\<lambda>t. targetCurrency t \<noteq> dc) txs)"
proof -
  have p: "baseTotal txs
        = baseTotal (filter (\<lambda>t. targetCurrency t = dc) txs)
          + baseTotal (filter (\<lambda>t. targetCurrency t \<noteq> dc) txs)"
    by (rule baseTotal_partition)
  have s: "rowsNet (balancesIn exact C txs dc) = signedSumIn dc txs"
    by (simp add: rowsNet_def signedSumIn_def balancesIn_exact sum_balances)
  from p s show ?thesis
    by (simp add: balancesIn_filter totalNetBalanceDZDIn_snoc balancesIn_exact
        balances_v2_eq totalNetBalanceDZDIn_exact totalNetBalanceDZD_sum)
qed

text \<open>
  With the rounding of binary64 the two sums of the claim differ: for a buy of 0.73, a sell
  of 3.29 and a buy of 4.94, all towards EUR, the rows hold 5.67 and 3.29 and their
  \<open>buys - sells\<close> sum to 2.38, while the signed amounts sum to 2.3800000000000003,
  whether the two sums are taken exactly or in binary64.
\<close>

theorem rounded_rows_sum_differs:
  "rowsNet (balancesIn binary64 sampleCurrencies roundingSample EUR)
     = 2679641778285445 / 1125899906842624
   \<and> signedSumIn EUR roundingSample = 5359283556570891 / 2251799813685248
   \<and> rowsNet (balancesIn binary64 sampleCurrencies roundingSample EUR)
     \<noteq> signedSumIn EUR roundingSample
   \<and> rowsNetIn binary64 (balancesIn binary64 sampleCurrencies roundingSample EUR)
     = 2679641778285445 / 1125899906842624
   \<and> signedSumInWith binary64 EUR roundingSample = 5359283556570891 / 2251799813685248
   \<and> rowsNetIn binary64 (balancesIn binary64 sampleCurrencies roundingSample EUR)
     \<noteq> signedSumInWith binary64 EUR roundingSample"
proof -
  have a: "rowsNet (balancesIn binary64 sampleCurrencies roundingSample EUR)
     = 2679641778285445 / 1125899906842624"
    unfolding rows64 by (simp add: rowsNet_def)
  have b: "signedSumIn EUR roundingSample = 5359283556570891 / 2251799813685248"
    unfolding roundingSample_eq by (simp add: signedSumIn_def signedAmount_def)
  have c: "rowsNetIn binary64 (balancesIn binary64 sampleCurrencies roundingSample EUR)
     = 2679641778285445 / 1125899906842624"
    unfolding rows64 by (simp add: rowsNetIn_def binary64_def round64_eval)
  have d: "signedSumInWith binary64 EUR roundingSample
     = 5359283556570891 / 2251799813685248"
    unfolding roundingSample_eq
    by (simp add: signedSumInWith_def signedAmount_def binary64_def round64_eval)
  show ?thesis unfolding a b c d by simp
qed

text \<open>
  C5. For the single transaction of 100 USD bought towards EUR at rate 0.9 and the display
  currency EUR, the aggregator outputs exactly one row, with code USD, buys 100, sells 0
  and net total 90.
\<close>

theorem example_row:
  "map (\<lambda>r. (code r, buys r, sells r, netTotal r))
     (balances C [\<lparr>currencyCode = ''USD'', targetCurrency = EUR, type = buy,
                   amount = 100, rate = 9 / 10\<rparr>] EUR)
   = [(''USD'', 100, 0, 90)]
   \<and> map (\<lambda>r. (code r, buys r, sells r, netTotal r))
     (balances_v2 C [\<lparr>currencyCode = ''USD'', targetCurrency = EUR, type = buy,
                      amount = 100, rate = 9 / 10\<rparr>] EUR)
   = [(''USD'', 100, 0, 90)]"
  by (simp add: balances_def balances_v2_def accumulate_def accumulate_v2_def Let_def)

text \<open>
  C4. In the converting variant the average rates are computed without an error and are
  finite: each is the arithmetic mean of the rates of the transactions with that target
  currency, and zero when there is none. The total in the display currency is the finite
  number zero when no transaction has the display currency as target, and otherwise the
  base-currency total divided by the mean of the rates of the transactions in the display
  currency; when that mean is zero the result is zero as well, not an infinity or
  \<^verbatim>\<open>NaN\<close>. With positive rates the mean is positive.
\<close>

theorem converted_total:
  "(\<exists>avgs. averageRates txs = Inr avgs
      \<and> averageRateFor avgs dc = Num (meanOf (ratesIn txs dc))
      \<and> DZD (totalNetBalance txs dc avgs) = baseTotal txs
      \<and> (ratesIn txs dc = [] \<longrightarrow>
            averageRateFor avgs dc = Num 0
          \<and> inDisplayCurrency (totalNetBalance txs dc avgs) = Num 0)
      \<and> (ratesIn txs dc \<noteq> []
          \<and> sum_list (ratesIn txs dc) / real (length (ratesIn txs dc)) \<noteq> 0 \<longrightarrow>
            averageRateFor avgs dc
              = Num (sum_list (ratesIn txs dc) / real (length (ratesIn txs dc)))
          \<and> inDisplayCurrency (totalNetBalance txs dc avgs)
              = Num (baseTotal txs
                     / (sum_list (ratesIn txs dc) / real (length (ratesIn txs dc)))))
      \<and> (ratesIn txs dc \<noteq> []
          \<and> sum_list (ratesIn txs dc) / real (length (ratesIn txs dc)) = 0 \<longrightarrow>
            inDisplayCurrency (totalNetBalance txs dc avgs) = Num 0))
   \<and> (ratesIn txs dc \<noteq> [] \<and> (\<forall>t \<in> set txs. 0 < rate t)
        \<longrightarrow> 0 < sum_list (ratesIn txs dc) / real (length (ratesIn txs dc)))"
proof -
  define avgs where
    "avgs = \<lparr>avgEUR = Num (meanOf (ratesIn txs EUR)), avgUSD = Num (meanOf (ratesIn txs USD))\<rparr>"
  have a: "averageRates txs = Inr avgs"
    by (simp add: avgs_def averageRates_eq)
  have f: "averageRateFor avgs dc = Num (meanOf (ratesIn txs dc))"
    by (simp add: avgs_def averageRateFor_eq)
  have d: "DZD (totalNetBalance txs dc avgs) = baseTotal txs"
    by (simp add: totalNetBalance_DZD totalNetBalanceDZD_sum)
  note c = totalNetBalance_conv [of txs dc avgs]
  have z: "averageRateFor avgs dc = Num 0
           \<and> inDisplayCurrency (totalNetBalance txs dc avgs) = Num 0"
    if "ratesIn txs dc = []"
    using that by (simp add: c f meanOf_def)
  have m: "averageRateFor avgs dc
              = Num (sum_list (ratesIn txs dc) / real (length (ratesIn txs dc)))
          \<and> inDisplayCurrency (totalNetBalance txs dc avgs)
              = Num (baseTotal txs
                     / (sum_list (ratesIn txs dc) / real (length (ratesIn txs dc))))"
    if "ratesIn txs dc \<noteq> []"
       "sum_list (ratesIn txs dc) / real (length (ratesIn txs dc)) \<noteq> 0"
  proof -
    from that(1) have mo: "meanOf (ratesIn txs dc)
                           = sum_list (ratesIn txs dc) / real (length (ratesIn txs dc))"
      by (simp add: meanOf_def)
    from that(2) show ?thesis
      unfolding c f d mo by (simp add: jsDivide_def)
  qed
  have g: "inDisplayCurrency (totalNetBalance txs dc avgs) = Num 0"
    if "ratesIn txs dc \<noteq> []"
       "sum_list (ratesIn txs dc) / real (length (ratesIn txs dc)) = 0"
  proof -
    from that(1) have mo: "meanOf (ratesIn txs dc)
                           = sum_list (ratesIn txs dc) / real (length (ratesIn txs dc))"
      by (simp add: meanOf_def)
    show ?thesis
      unfolding c f mo that(2) by simp
  qed
  have pos: "0 < sum_list (ratesIn txs dc) / real (length (ratesIn txs dc))"
    if "ratesIn txs dc \<noteq> []" "\<forall>t \<in> set txs. 0 < rate t"
    using that by (intro mean_pos) (auto simp: ratesIn_def)
  from a f d z m g pos show ?thesis by blast
qed

theorem converted_total_witness:
  "ratesIn sampleTransactions EUR = [3 / 2, 5 / 4, 1 / 2]
   \<and> averageRates sampleTransactions = Inr \<lparr>avgEUR = Num (13 / 12), avgUSD = Num 2\<rparr>
   \<and> inDisplayCurrency
       (totalNetBalance sampleTransactions EUR \<lparr>avgEUR = Num (13 / 12), avgUSD = Num 2\<rparr>)
     = Num (2490 / 13)
   \<and> ratesIn usdOnly EUR = []
   \<and> averageRates usdOnly = Inr \<lparr>avgEUR = Num 0, avgUSD = Num (5 / 2)\<rparr>
   \<and> inDisplayCurrency
       (totalNetBalance usdOnly EUR \<lparr>avgEUR = Num 0, avgUSD = Num (5 / 2)\<rparr>) = Num 0
   \<and> ratesIn zeroRate EUR = [0]
   \<and> averageRates zeroRate = Inr \<lparr>avgEUR = Num 0, avgUSD = Num 0\<rparr>
   \<and> inDisplayCurrency
       (totalNetBalance zeroRate EUR \<lparr>avgEUR = Num 0, avgUSD = Num 0\<rparr>) = Num 0"
proof -
  have r: "ratesIn sampleTransactions EUR = [3 / 2, 5 / 4, 1 / 2]"
    by (simp add: ratesIn_def sampleTransactions_def)
  have b: "baseTotal sampleTransactions = 415 / 2"
    by (simp add: baseTotal_def signedAmount_def sampleTransactions_def)
  have a: "averageRates sampleTransactions = Inr \<lparr>avgEUR = Num (13 / 12), avgUSD = Num 2\<rparr>"
    by (simp add: averageRates_eq meanOf_def ratesIn_def sampleTransactions_def)
  have u: "ratesIn usdOnly EUR = []"
    by (simp add: ratesIn_def usdOnly_def)
  have au: "averageRates usdOnly = Inr \<lparr>avgEUR = Num 0, avgUSD = Num (5 / 2)\<rparr>"
    by (simp add: averageRates_eq meanOf_def ratesIn_def usdOnly_def)
  have z: "ratesIn zeroRate EUR = [0]"
    by (simp add: ratesIn_def zeroRate_def)
  have az: "averageRates zeroRate = Inr \<lparr>avgEUR = Num 0, avgUSD = Num 0\<rparr>"
    by (simp add: averageRates_eq meanOf_def ratesIn_def zeroRate_def)
  from converted_total [of sampleTransactions EUR] r b a
  have 1: "inDisplayCurrency
       (totalNetBalance sampleTransactions EUR \<lparr>avgEUR = Num (13 / 12), avgUSD = Num 2\<rparr>)
     = Num (2490 / 13)"
    by simp
  from converted_total [of usdOnly EUR] u au
  have 2: "inDisplayCurrency
       (totalNetBalance usdOnly EUR \<lparr>avgEUR = Num 0, avgUSD = Num (5 / 2)\<rparr>) = Num 0"
    by simp
  from converted_total [of zeroRate EUR] z az
  have 3: "inDisplayCurrency
       (totalNetBalance zeroRate EUR \<lparr>avgEUR = Num 0, avgUSD = Num 0\<rparr>) = Num 0"
    by simp
  from r a u au z az 1 2 3 show ?thesis by simp
qed

text \<open>
  C6. With no transaction both variants render the generic empty state. With transactions
  of which none has the display currency as target, both render the message
  "No transactions in" followed by the display currency, and the summary card shows the
  base-currency total over all transactions (and no converted total).
\<close>

theorem empty_states:
  "BalanceScreen C [] dc = Inr emptyState
   \<and> BalanceScreen_v2 C [] dc = Inr emptyState
   \<and> (txs \<noteq> [] \<and> (\<forall>t \<in> set txs. targetCurrency t \<noteq> dc) \<longrightarrow>
        BalanceScreen C txs dc =
          Inr (Summary (codeOf dc)
                \<lparr>totalBalanceStyle = (if baseTotal txs > 0 then positive else negative),
                 totalBalanceValue = formatCurrency (baseTotal txs) ''DZD'',
                 totalBalanceValueSecondary = None\<rparr>
                (noTransactionsText (''No transactions in '' @ codeOf dc)))
      \<and> BalanceScreen_v2 C txs dc =
          Inr (Summary (codeOf dc)
                \<lparr>totalBalanceStyle = (if baseTotal txs > 0 then positive else negative),
                 totalBalanceValue = formatCurrency (baseTotal txs) ''DZD'',
                 totalBalanceValueSecondary = None\<rparr>
                (noTransactionsText (''No transactions in '' @ codeOf dc))))"
proof -
  have e1: "BalanceScreen C [] dc = Inr emptyState"
    by (simp add: BalanceScreen_def emptyState_def)
  have e2: "BalanceScreen_v2 C [] dc = Inr emptyState"
    by (simp add: BalanceScreen_v2_def averageRates_eq emptyState_def)
  have n: "BalanceScreen C txs dc =
          Inr (Summary (codeOf dc)
                \<lparr>totalBalanceStyle = (if baseTotal txs > 0 then positive else negative),
                 totalBalanceValue = formatCurrency (baseTotal txs) ''DZD'',
                 totalBalanceValueSecondary = None\<rparr>
                (noTransactionsText (''No transactions in '' @ codeOf dc)))
      \<and> BalanceScreen_v2 C txs dc =
          Inr (Summary (codeOf dc)
                \<lparr>totalBalanceStyle = (if baseTotal txs > 0 then positive else negative),
                 totalBalanceValue = formatCurrency (baseTotal txs) ''DZD'',
                 totalBalanceValueSecondary = None\<rparr>
                (noTransactionsText (''No transactions in '' @ codeOf dc)))"
    if "txs \<noteq> []" and none: "\<forall>t \<in> set txs. targetCurrency t \<noteq> dc"
    using that(1)
    by (simp add: BalanceScreen_def BalanceScreen_v2_def Let_def balances_v2_eq
        balances_empty [OF none] averageRates_eq averageRateFor_eq meanOf_empty [OF none]
        totalNetBalance_DZD totalNetBalanceDZD_sum)
  from e1 e2 n show ?thesis by blast
qed

theorem empty_states_witness:
  "usdOnly \<noteq> []
   \<and> map targetCurrency usdOnly = [USD, USD]
   \<and> BalanceScreen sampleCurrencies usdOnly EUR =
       Inr (Summary ''EUR''
             \<lparr>totalBalanceStyle = positive,
              totalBalanceValue = formatCurrency 40 ''DZD'',
              totalBalanceValueSecondary = None\<rparr>
             (noTransactionsText ''No transactions in EUR''))
   \<and> BalanceScreen_v2 sampleCurrencies usdOnly EUR =
       Inr (Summary ''EUR''
             \<lparr>totalBalanceStyle = positive,
              totalBalanceValue = formatCurrency 40 ''DZD'',
              totalBalanceValueSecondary = None\<rparr>
             (noTransactionsText ''No transactions in EUR''))"
proof -
  have h: "usdOnly \<noteq> [] \<and> (\<forall>t \<in> set usdOnly. targetCurrency t \<noteq> EUR)"
    by (simp add: usdOnly_def)
  have b: "baseTotal usdOnly = 40"
    by (simp add: baseTotal_def signedAmount_def usdOnly_def)
  have t: "map targetCurrency usdOnly = [USD, USD]"
    by (simp add: usdOnly_def)
  from empty_states [of sampleCurrencies EUR usdOnly] h b t show ?thesis by simp
qed

text \<open>
  C7. A rendered row has the success colour for its net total exactly when the net total
  is greater than zero, and the error colour otherwise; a net total of exactly zero gets
  the negative style.
\<close>

theorem net_total_style:
  "renderBalanceItem dc item = Inr v \<Longrightarrow>
     (color (netTotalStyle v) = COLORS_success \<longleftrightarrow> 0 < netTotal item)
   \<and> (color (netTotalStyle v) = COLORS_error \<longleftrightarrow> netTotal item \<le> 0)
   \<and> (netTotal item = 0 \<longrightarrow> netTotalStyle v = negative)"
  by (cases "currency item") (auto simp: renderBalanceItem_def split: if_splits)

theorem net_total_style_witness:
  "renderBalanceItem EUR zeroRow = Inr zeroRowView
   \<and> netTotal zeroRow = 0
   \<and> netTotalStyle zeroRowView = negative
   \<and> color (netTotalStyle zeroRowView) = COLORS_error"
proof -
  have h: "renderBalanceItem EUR zeroRow = Inr zeroRowView"
    by (simp add: renderBalanceItem_def zeroRow_def zeroRowView_def)
  have n: "netTotal zeroRow = 0" by (simp add: zeroRow_def)
  from net_total_style [OF h] h n show ?thesis by simp
qed

text \<open>
  C8, as the code has it. Rendering raises no error when every transaction in the display
  currency has a source currency code with an entry in the reference table. A row whose
  currency reference is undefined is not rendered with blank fields: rendering it raises a
  \<^verbatim>\<open>TypeError\<close>, and a row has an undefined reference exactly when its code has no entry
  in the table.
\<close>

theorem render_defined:
  "((\<forall>t \<in> set txs. targetCurrency t = dc \<longrightarrow> known C (currencyCode t)) \<longrightarrow>
      (\<exists>s. BalanceScreen C txs dc = Inr s) \<and> (\<exists>s. BalanceScreen_v2 C txs dc = Inr s))
   \<and> (renderBalanceItem dc item = Inl TypeError \<longleftrightarrow> currency item = None)
   \<and> (\<forall>r \<in> set (balances C txs dc). currency r = None \<longleftrightarrow> \<not> known C (code r))"
proof -
  have ok: "(\<exists>s. BalanceScreen C txs dc = Inr s) \<and> (\<exists>s. BalanceScreen_v2 C txs dc = Inr s)"
    if a: "\<forall>t \<in> set txs. targetCurrency t = dc \<longrightarrow> known C (currencyCode t)"
  proof -
    from rows_render [OF a] obtain vs where
      vs: "renderItems (renderBalanceItem dc) (balances C txs dc) = Inr vs" by blast
    show ?thesis
      by (simp add: BalanceScreen_def BalanceScreen_v2_def Let_def balances_v2_eq
          averageRates_eq vs)
  qed
  have row: "currency r = None \<longleftrightarrow> \<not> known C (code r)" if "r \<in> set (balances C txs dc)" for r
    using balances_currency [OF that] find_known [of "code r" C] by auto
  from ok row renderBalanceItem_error [of dc item] show ?thesis by blast
qed

theorem render_defined_witness:
  "map (known sampleCurrencies) (map currencyCode sampleTransactions) = [True, True, True, True]
   \<and> BalanceScreen sampleCurrencies sampleTransactions EUR =
       Inr (Summary ''EUR''
             \<lparr>totalBalanceStyle = positive,
              totalBalanceValue = formatCurrency (415 / 2) ''DZD'',
              totalBalanceValueSecondary = None\<rparr>
             (FlatList sampleRowViewsEUR))
   \<and> map currency (balances sampleCurrencies unlisted EUR) = [None]
   \<and> known sampleCurrencies ''XYZ'' = False"
proof -
  have k: "map (known sampleCurrencies) (map currencyCode sampleTransactions)
           = [True, True, True, True]"
    by (simp add: known_def sampleCurrencies_def sampleTransactions_def)
  have b: "balances sampleCurrencies sampleTransactions EUR =
     [\<lparr>buys = 100, sells = 30,
       currency = Some \<lparr>ccode = ''GBP'', name = ''British Pound'', flagUrl = ''gbp.png''\<rparr>,
       dataTargetCurrency = EUR, code = ''GBP'', netTotal = 105\<rparr>,
      \<lparr>buys = 0, sells = 10,
       currency = Some \<lparr>ccode = ''CAD'', name = ''Canadian Dollar'', flagUrl = ''cad.png''\<rparr>,
       dataTargetCurrency = EUR, code = ''CAD'', netTotal = - 5\<rparr>]"
    by (simp add: balances_def sampleTransactions_def sampleCurrencies_def accumulate_def
        Let_def)
  have t: "totalNetBalanceDZD sampleTransactions = 415 / 2"
    by (simp add: totalNetBalanceDZD_def sampleTransactions_def)
  have s: "BalanceScreen sampleCurrencies sampleTransactions EUR =
       Inr (Summary ''EUR''
             \<lparr>totalBalanceStyle = positive,
              totalBalanceValue = formatCurrency (415 / 2) ''DZD'',
              totalBalanceValueSecondary = None\<rparr>
             (FlatList sampleRowViewsEUR))"
    unfolding BalanceScreen_def b t
    by (simp add: sampleTransactions_def renderBalanceItem_def sampleRowViewsEUR_def)
  have u: "map currency (balances sampleCurrencies unlisted EUR) = [None]"
    by (simp add: balances_def unlisted_def sampleCurrencies_def accumulate_def Let_def)
  have x: "known sampleCurrencies ''XYZ'' = False"
    by (simp add: known_def sampleCurrencies_def)
  from render_defined [of sampleTransactions EUR sampleCurrencies] k s u x
  show ?thesis by simp
qed

text \<open>
  The claim as the specification states it fails: a single transaction whose source
  currency has no entry in the table makes both variants raise instead of rendering.
\<close>

theorem render_unlisted_raises:
  "BalanceScreen sampleCurrencies unlisted EUR = Inl TypeError
   \<and> BalanceScreen_v2 sampleCurrencies unlisted EUR = Inl TypeError"
proof -
  have b: "balances sampleCurrencies unlisted EUR =
     [\<lparr>buys = 100, sells = 0, currency = None, dataTargetCurrency = EUR,
       code = ''XYZ'', netTotal = 90\<rparr>]"
    by (simp add: balances_def unlisted_def sampleCurrencies_def accumulate_def Let_def)
  show ?thesis
    unfolding BalanceScreen_def BalanceScreen_v2_def balances_v2_eq b averageRates_eq
    by (simp add: unlisted_def renderBalanceItem_def Let_def)
qed

text \<open>
  C9. Toggling maps USD to EUR and EUR to USD, so toggling twice restores the state, and it
  leaves the transaction list unchanged. After a toggle the rows are aggregated for the
  new display currency (their codes are those of the unchanged transactions in that
  currency, and each row carries it as its target currency), and the amounts of a rendered
  row are formatted in it.
\<close>

theorem toggle_display_currency:
  "stDisplayCurrency (toggleDisplayCurrency (s\<lparr>stDisplayCurrency := USD\<rparr>)) = EUR
   \<and> stDisplayCurrency (toggleDisplayCurrency (s\<lparr>stDisplayCurrency := EUR\<rparr>)) = USD
   \<and> toggleDisplayCurrency (toggleDisplayCurrency s) = s
   \<and> stTransactions (toggleDisplayCurrency s) = stTransactions s
   \<and> map code (balances C (stTransactions (toggleDisplayCurrency s))
                 (stDisplayCurrency (toggleDisplayCurrency s)))
     = seenCodes (stTransactions s) (stDisplayCurrency (toggleDisplayCurrency s))
   \<and> (\<forall>r \<in> set (balances C (stTransactions (toggleDisplayCurrency s))
                   (stDisplayCurrency (toggleDisplayCurrency s))).
         dataTargetCurrency r = stDisplayCurrency (toggleDisplayCurrency s))
   \<and> (\<forall>r \<in> set (balances_v2 C (stTransactions (toggleDisplayCurrency s))
                   (stDisplayCurrency (toggleDisplayCurrency s))).
         dataTargetCurrency r = stDisplayCurrency (toggleDisplayCurrency s))
   \<and> (renderBalanceItem (stDisplayCurrency (toggleDisplayCurrency s)) item = Inr v \<longrightarrow>
         totalBuys v
           = formatCurrency (buys item) (codeOf (stDisplayCurrency (toggleDisplayCurrency s)))
       \<and> totalSells v
           = formatCurrency (sells item) (codeOf (stDisplayCurrency (toggleDisplayCurrency s)))
       \<and> netTotalValue v
           = formatCurrency (buys item - sells item)
               (codeOf (stDisplayCurrency (toggleDisplayCurrency s))))"
proof -
  have 1: "stDisplayCurrency (toggleDisplayCurrency (s\<lparr>stDisplayCurrency := USD\<rparr>)) = EUR"
    by (simp add: toggleDisplayCurrency_def)
  have 2: "stDisplayCurrency (toggleDisplayCurrency (s\<lparr>stDisplayCurrency := EUR\<rparr>)) = USD"
    by (simp add: toggleDisplayCurrency_def)
  have 3: "toggleDisplayCurrency (toggleDisplayCurrency s) = s"
    by (cases "stDisplayCurrency s") (simp_all add: toggleDisplayCurrency_def)
  have 4: "stTransactions (toggleDisplayCurrency s) = stTransactions s"
    by (simp add: toggleDisplayCurrency_def)
  have 5: "map code (balances C (stTransactions (toggleDisplayCurrency s)) d)
           = seenCodes (stTransactions s) d" for d
    unfolding 4 by (simp add: balances_tab o_def)
  have 6: "dataTargetCurrency r = d" if "r \<in> set (balances C txs d)" for r d txs
    using balances_currency [OF that] by simp
  have 7: "totalBuys v = formatCurrency (buys item) (codeOf d)
       \<and> totalSells v = formatCurrency (sells item) (codeOf d)
       \<and> netTotalValue v = formatCurrency (buys item - sells item) (codeOf d)"
    if "renderBalanceItem d item = Inr v" for d
    using that by (cases "currency item") (auto simp: renderBalanceItem_def)
  from 1 2 3 4 5 6 7 show ?thesis
    unfolding balances_v2_eq by blast
qed

theorem toggle_display_currency_witness:
  "stDisplayCurrency (toggleDisplayCurrency sampleState) = USD
   \<and> stTransactions (toggleDisplayCurrency sampleState) = sampleTransactions
   \<and> toggleDisplayCurrency (toggleDisplayCurrency sampleState) = sampleState
   \<and> map dataTargetCurrency
       (balances sampleCurrencies (stTransactions (toggleDisplayCurrency sampleState))
          (stDisplayCurrency (toggleDisplayCurrency sampleState))) = [USD]
   \<and> renderItems (renderBalanceItem (stDisplayCurrency (toggleDisplayCurrency sampleState)))
       (balances sampleCurrencies (stTransactions (toggleDisplayCurrency sampleState))
          (stDisplayCurrency (toggleDisplayCurrency sampleState)))
     = Inr sampleRowViewsUSD"
proof -
  have d: "stDisplayCurrency (toggleDisplayCurrency sampleState) = USD"
    by (simp add: toggleDisplayCurrency_def sampleState_def)
  have t: "stTransactions (toggleDisplayCurrency sampleState) = sampleTransactions"
    by (simp add: toggleDisplayCurrency_def sampleState_def)
  have b: "balances sampleCurrencies sampleTransactions USD =
     [\<lparr>buys = 50, sells = 0,
       currency = Some \<lparr>ccode = ''CHF'', name = ''Swiss Franc'', flagUrl = ''chf.png''\<rparr>,
       dataTargetCurrency = USD, code = ''CHF'', netTotal = 100\<rparr>]"
    by (simp add: balances_def sampleTransactions_def sampleCurrencies_def accumulate_def
        Let_def)
  from toggle_display_currency [of sampleState sampleCurrencies]
  show ?thesis
    unfolding d t b by (simp add: renderBalanceItem_def sampleRowViewsUSD_def)
qed

text \<open>
  C10. The two variants compute the same balance rows and the same base-currency total.
  Their screens differ only by the converted total of the summary card: the screen of the
  converting variant without it is the screen of the plain variant.
\<close>

theorem variants_agree:
  "balances_v2 C txs dc = balances C txs dc
   \<and> DZD (totalNetBalance txs dc avgs) = totalNetBalanceDZD txs
   \<and> map_sum id withoutSecondary (BalanceScreen_v2 C txs dc) = BalanceScreen C txs dc"
proof -
  have "map_sum id withoutSecondary (BalanceScreen_v2 C txs dc) = BalanceScreen C txs dc"
    by (simp add: BalanceScreen_v2_def BalanceScreen_def Let_def balances_v2_eq
        averageRates_eq totalNetBalance_DZD split: sum.splits)
  then show ?thesis
    by (simp add: balances_v2_eq totalNetBalance_DZD)
qed

end
